theory Spec2Isabelle
  imports Complex_Main
begin

section \<open>Data model: date-indexed tables of hourly values\<close>

text \<open>
  The program works on pandas tables whose index is a calendar day and whose columns are
  the hours of the day. A day is modelled by its day number (an integer, so that
  \<open>d + 1\<close> is the next day and \<open>d - 365\<close> the day 365 days earlier), a cell by
  a real number or \<open>None\<close> for NaN, a row (a pandas Series taken out of a table) by its
  name, the day, and its values. A table keeps its number of columns besides its rows,
  since an empty pandas table still has columns.
\<close>

type_synonym date = int
type_synonym cell = "real option"
type_synonym series = "date \<times> cell list"

record frame =
  ncols :: nat
  rows :: "series list"

datatype error = IndexError | KeyError date | ValueError

text \<open>What a label or position lookup gives: one row, or a sub-table when several rows match.\<close>

datatype selection = Series series | SubFrame frame

definition index :: "frame \<Rightarrow> date list" where
  "index f = map fst (rows f)"

definition shape0 :: "frame \<Rightarrow> nat" where
  "shape0 f = length (rows f)"

definition shape1 :: "frame \<Rightarrow> nat" where
  "shape1 f = ncols f"

text \<open>
  Python indexing of a sequence, \<open>xs[k]\<close>: position \<open>k\<close> from the front when
  \<open>k \<ge> 0\<close>, position \<open>len(xs) + k\<close> otherwise, and IndexError outside the sequence.
\<close>

definition py_index :: "'a list \<Rightarrow> int \<Rightarrow> error + 'a" where
  "py_index xs k =
     (let pos = (if 0 \<le> k then k else k + int (length xs))
      in if pos < 0 \<or> int (length xs) \<le> pos then Inl IndexError else Inr (xs ! nat pos))"

text \<open>\<open>f.iloc[k, :]\<close>, the row at position \<open>k\<close>.\<close>

definition iloc_row :: "frame \<Rightarrow> int \<Rightarrow> error + series" where
  "iloc_row f k = py_index (rows f) k"

text \<open>\<open>f.iloc[:, i]\<close> for \<open>i \<ge> 0\<close>, the column at position \<open>i\<close>.\<close>

definition iloc_col :: "frame \<Rightarrow> nat \<Rightarrow> error + cell list" where
  "iloc_col f i =
     (if i < ncols f then Inr (map (\<lambda>r. snd r ! i) (rows f)) else Inl IndexError)"

text \<open>
  \<open>f.loc[d, :]\<close>: the row labelled \<open>d\<close>; KeyError when no row has that label, and
  the sub-table of all matching rows when several have it.
\<close>

definition loc :: "frame \<Rightarrow> date \<Rightarrow> error + selection" where
  "loc f d =
     (case filter (\<lambda>r. fst r = d) (rows f) of
        [] \<Rightarrow> Inl (KeyError d)
      | r # others \<Rightarrow> if others = [] then Inr (Series r)
                     else Inr (SubFrame (f\<lparr>rows := r # others\<rparr>)))"

text \<open>
  Label slicing on a chronologically ordered index. pandas finds the two positions by
  binary search (\<open>searchsorted\<close>, side left for the lower bound and right for the
  upper bound, both bounds inclusive) and cuts the table between them. On an ordered
  index the search returns the number of labels below, respectively not above, the
  bound; an index that is not ordered is outside this model.
\<close>

definition searchsorted_left :: "date list \<Rightarrow> date \<Rightarrow> nat" where
  "searchsorted_left ix d = length (takeWhile (\<lambda>x. x < d) ix)"

definition searchsorted_right :: "date list \<Rightarrow> date \<Rightarrow> nat" where
  "searchsorted_right ix d = length (takeWhile (\<lambda>x. x \<le> d) ix)"

definition slice_upto :: "frame \<Rightarrow> date \<Rightarrow> frame" where
  "slice_upto f d = f\<lparr>rows := take (searchsorted_right (index f) d) (rows f)\<rparr>"

definition slice_from :: "frame \<Rightarrow> date \<Rightarrow> frame" where
  "slice_from f d = f\<lparr>rows := drop (searchsorted_left (index f) d) (rows f)\<rparr>"

definition slice_between :: "frame \<Rightarrow> date \<Rightarrow> date \<Rightarrow> frame" where
  "slice_between f lo hi =
     f\<lparr>rows := drop (searchsorted_left (index f) lo)
                  (take (searchsorted_right (index f) hi) (rows f))\<rparr>"

text \<open>
  \<open>f.append(s)\<close> of pandas before 2.0: a new table, the rows of \<open>f\<close> followed by
  \<open>s\<close>. The table \<open>f\<close> itself is left as it is.
\<close>

definition DataFrame_append :: "frame \<Rightarrow> series \<Rightarrow> frame" where
  "DataFrame_append f s = f\<lparr>rows := rows f @ [s]\<rparr>"

section \<open>Loading the data set\<close>

text \<open>
  \<open>get_persistence_dataset\<close> reads a CSV file and calls two helpers of the module
  \<open>features_preprocessing\<close>, which is not part of the sources at hand. The file system
  and the helpers are parameters of the model: \<open>read_csv\<close> maps a path and the name of
  the index column to the parsed file, \<open>period_start\<close> and \<open>period_end\<close> give the
  first and the last day of the period a partial date string such as \<open>2015\<close> names.
\<close>

record 'raw env =
  read_csv :: "string \<Rightarrow> string \<Rightarrow> error + 'raw"
  transform_to_windows :: "'raw \<Rightarrow> error + frame"
  rename_cols :: "frame \<Rightarrow> int \<Rightarrow> error + frame"
  period_start :: "string \<Rightarrow> date option"
  period_end :: "string \<Rightarrow> date option"

definition get_persistence_dataset ::
  "'raw env \<Rightarrow> string \<Rightarrow> string \<Rightarrow> string \<Rightarrow> string \<Rightarrow> int \<Rightarrow> error + frame" where
  "get_persistence_dataset E path index_col start stop shift =
     (case read_csv E ''./data/cleaned_data/energy_loads_2015_2019.csv'' index_col of
        Inl e \<Rightarrow> Inl e
      | Inr raw \<Rightarrow>
     (case transform_to_windows E raw of
        Inl e \<Rightarrow> Inl e
      | Inr windows \<Rightarrow>
     (case rename_cols E windows shift of
        Inl e \<Rightarrow> Inl e
      | Inr data \<Rightarrow>
     (case (period_start E start, period_end E stop) of
        (Some lo, Some hi) \<Rightarrow> Inr (slice_between data lo hi)
      | _ \<Rightarrow> Inl ValueError))))"

section \<open>Train/test split\<close>

text \<open>
  \<open>train_test_split(data, split_date)\<close>. The split date arrives as a string; the
  parser \<open>strptime\<close> (format \<open>%Y-%m-%d\<close>) is a parameter that gives the day number of
  a well-formed date string and \<open>None\<close> otherwise, in which case the source raises.
  \<open>data[:split_date]\<close> keeps the rows up to and including the split day,
  \<open>data[split_date + 1 day:]\<close> the rows from the next day on.
\<close>

definition train_test_split ::
  "(string \<Rightarrow> date option) \<Rightarrow> frame \<Rightarrow> string \<Rightarrow> error + frame \<times> frame" where
  "train_test_split strptime data split_date =
     (case strptime split_date of
        None \<Rightarrow> Inl ValueError
      | Some d \<Rightarrow>
          (let train = slice_upto data d;
               d' = d + 1;
               test = slice_from data d'
           in Inr (train, test)))"

section \<open>Forecast strategies\<close>

text \<open>\<open>day_hbh_persistence(history, days=1)\<close> returns \<open>history.iloc[-days, :]\<close>.\<close>

definition day_hbh_persistence :: "int \<Rightarrow> frame \<Rightarrow> error + selection" where
  "day_hbh_persistence days history = map_sum id Series (iloc_row history (- days))"

text \<open>
  \<open>ma_persistence(history, window=3)\<close> returns the last row of
  \<open>history.rolling(window).mean()\<close>, which pandas computes as a running sum in
  binary floating point. Its value is a matter of rounding and of the order of the
  additions, which the cells of this model (exact reals) do not have, so the strategy has
  no definition here.
\<close>

text \<open>
  \<open>same_day_oya_persistence(history)\<close>: the label of the last row, moved back by
  365 days, looked up in \<open>history\<close>.
\<close>

definition same_day_oya_persistence :: "frame \<Rightarrow> error + selection" where
  "same_day_oya_persistence history =
     (case py_index (index history) (- 1) of
        Inl e \<Rightarrow> Inl e
      | Inr day \<Rightarrow> (let day_oya = day + (- 365) in loc history day_oya))"

section \<open>Error aggregation\<close>

text \<open>
  \<open>mean_squared_error(a, b)\<close> of scikit-learn: the mean of the squared differences.
  The library refuses (ValueError) arguments of different lengths, empty arguments and
  arguments with a NaN.
\<close>

definition mean_squared_error :: "cell list \<Rightarrow> cell list \<Rightarrow> error + real" where
  "mean_squared_error a b =
     (if length a \<noteq> length b \<or> a = [] \<or> None \<in> set a \<or> None \<in> set b
      then Inl ValueError
      else Inr (sum_list (map (\<lambda>(x, y). (the x - the y)\<^sup>2) (zip a b)) / real (length a)))"

text \<open>\<open>np.mean\<close> of a list of numbers, NaN for the empty list.\<close>

definition np_mean :: "real list \<Rightarrow> cell" where
  "np_mean xs = (if xs = [] then None else Some (sum_list xs / real (length xs)))"

text \<open>\<open>str(n)\<close>, the decimal numeral of a natural number.\<close>

fun str :: "nat \<Rightarrow> string" where
  "str n = (if n < 10 then [''0123456789'' ! n]
            else str (n div 10) @ [''0123456789'' ! (n mod 10)])"

text \<open>
  The error table: \<open>pd.DataFrame(error_list, index=index, columns=columns)\<close>, for a
  non-empty \<open>error_list\<close> (the source has read \<open>error_list[0]\<close> before). Every
  entry must have one value per column. As many entries as index labels give the table
  with these entries; a single entry is repeated under every index label; any other number
  of entries is refused.
\<close>

record error_table =
  et_columns :: "string list"
  et_index :: "string list"
  et_values :: "real list list"

definition DataFrame_errors ::
  "real list list \<Rightarrow> string list \<Rightarrow> string list \<Rightarrow> error + error_table" where
  "DataFrame_errors data ix cols =
     (if \<not> list_all (\<lambda>r. length r = length cols) data then Inl ValueError
      else if length data = length ix
        then Inr \<lparr>et_columns = cols, et_index = ix, et_values = data\<rparr>
      else if length data = 1
        then Inr \<lparr>et_columns = cols, et_index = ix,
                  et_values = replicate (length ix) (hd data)\<rparr>
      else Inl ValueError)"

text \<open>The entry of the loop of \<open>calculate_errors\<close> for hour column \<open>i\<close>.\<close>

definition hour_rmse :: "frame \<Rightarrow> frame \<Rightarrow> nat \<Rightarrow> error + real" where
  "hour_rmse Y_hat_test Y_test i =
     (case iloc_col Y_hat_test i of
        Inl e \<Rightarrow> Inl e
      | Inr a \<Rightarrow>
     (case iloc_col Y_test i of
        Inl e \<Rightarrow> Inl e
      | Inr b \<Rightarrow> map_sum id sqrt (mean_squared_error a b)))"

fun error_loop ::
  "frame \<Rightarrow> frame \<Rightarrow> nat list \<Rightarrow> real list list \<Rightarrow> error + real list list" where
  "error_loop Y_hat_test Y_test [] error_list = Inr error_list"
| "error_loop Y_hat_test Y_test (i # is) error_list =
     (case hour_rmse Y_hat_test Y_test i of
        Inl e \<Rightarrow> Inl e
      | Inr r \<Rightarrow> error_loop Y_hat_test Y_test is (error_list @ [[r]]))"

definition calculate_errors ::
  "frame \<Rightarrow> frame \<Rightarrow> string \<Rightarrow> error + error_table \<times> cell list list" where
  "calculate_errors Y_hat_test Y_test result_set =
     (let columns = [result_set] in
      case error_loop Y_hat_test Y_test [0..<shape1 Y_hat_test] [] of
        Inl e \<Rightarrow> Inl e
      | Inr error_list \<Rightarrow>
     (case py_index error_list 0 of
        Inl e \<Rightarrow> Inl e
      | Inr first_entry \<Rightarrow>
          (let error_mean = [] @ [[np_mean first_entry]];
               index = map str [0..<24]
           in case DataFrame_errors error_list index columns of
                Inl e \<Rightarrow> Inl e
              | Inr errors \<Rightarrow> Inr (errors, error_mean))))"

section \<open>Walk-forward evaluation\<close>

text \<open>
  The model that the evaluator calls is any callable. Besides giving a forecast or
  raising, a callable may keep state of its own from one call to the next, and it may
  write to the table it is handed. In the model it therefore takes its own state and the
  table, and gives back its result, its new state and the table as the call left it. The
  three strategies above keep no state and only read; \<open>pure_strategy\<close> makes such a
  function a callable.
\<close>

type_synonym 's strategy = "'s \<Rightarrow> frame \<Rightarrow> (error + selection) \<times> 's \<times> frame"

definition pure_strategy :: "(frame \<Rightarrow> error + selection) \<Rightarrow> 's strategy" where
  "pure_strategy f = (\<lambda>s h. (f h, s, h))"

text \<open>
  The evaluator works with four objects: its two arguments, the working table
  \<open>history\<close> and the list of forecasts. They are fields of the state that the loop
  passes on, next to the state of the callable. A step returns the state it reached
  together with the exception that ended it, if any.
\<close>

record 's wf_state =
  train :: frame
  test :: frame
  history :: frame
  predictions :: "selection list"
  model_state :: 's

text \<open>
  The loop body for position \<open>i\<close>: call the model on \<open>history\<close>, store the forecast,
  read the \<open>i\<close>-th test row and call \<open>history.append\<close> with it. The table that
  \<open>append\<close> returns is bound to nothing in the source, so no field of the state
  receives it.
\<close>

definition wf_step :: "'s strategy \<Rightarrow> nat \<Rightarrow> 's wf_state \<Rightarrow> error option \<times> 's wf_state" where
  "wf_step model i st =
     (case model (model_state st) (history st) of
        (Inl e, s', h') \<Rightarrow> (Some e, st\<lparr>history := h', model_state := s'\<rparr>)
      | (Inr Y_hat, s', h') \<Rightarrow>
          (let st1 = st\<lparr>history := h', model_state := s',
                         predictions := predictions st @ [Y_hat]\<rparr>
           in case iloc_row (test st1) (int i) of
                Inl e \<Rightarrow> (Some e, st1)
              | Inr observation \<Rightarrow>
                  (let discarded = DataFrame_append (history st1) observation
                   in (None, st1))))"

fun wf_loop :: "'s strategy \<Rightarrow> nat list \<Rightarrow> 's wf_state \<Rightarrow> error option \<times> 's wf_state" where
  "wf_loop model [] st = (None, st)"
| "wf_loop model (i # is) st =
     (case wf_step model i st of
        (Some e, st') \<Rightarrow> (Some e, st')
      | (None, st') \<Rightarrow> wf_loop model is st')"

text \<open>
  \<open>pd.DataFrame(predictions, index=test.index, columns=test.columns)\<close>: the forecasts
  as rows under the dates of \<open>test\<close>, each aligned to the columns of \<open>test\<close> (NaN
  where a forecast has no value for a column). A forecast that is a table and a number
  of forecasts other than the number of dates are refused.
\<close>

definition reindex :: "nat \<Rightarrow> cell list \<Rightarrow> cell list" where
  "reindex n r = map (\<lambda>c. if c < length r then r ! c else None) [0..<n]"

fun series_values :: "selection list \<Rightarrow> cell list list option" where
  "series_values [] = Some []"
| "series_values (Series s # ps) = map_option ((#) (snd s)) (series_values ps)"
| "series_values (SubFrame f # ps) = None"

definition DataFrame_predictions :: "selection list \<Rightarrow> frame \<Rightarrow> error + frame" where
  "DataFrame_predictions ps tst =
     (case series_values ps of
        None \<Rightarrow> Inl ValueError
      | Some vs \<Rightarrow>
          if length vs \<noteq> length (index tst) then Inl ValueError
          else Inr \<lparr>ncols = ncols tst,
                    rows = zip (index tst) (map (reindex (ncols tst)) vs)\<rparr>)"

text \<open>
  \<open>walk_forward_evaluation(model, train, test, model_name)\<close>, for a callable in the
  state \<open>s0\<close>: the result of the call, or the exception that left it, and the final
  state. \<open>history\<close> starts as a copy of \<open>train\<close>, an object of its own.
\<close>

definition walk_forward_evaluation ::
  "'s strategy \<Rightarrow> 's \<Rightarrow> frame \<Rightarrow> frame \<Rightarrow> string
     \<Rightarrow> (error + error_table \<times> cell list list) \<times> 's wf_state" where
  "walk_forward_evaluation model s0 trn tst model_name =
     (let st0 = \<lparr>train = trn, test = tst, history = trn, predictions = [],
                 model_state = s0\<rparr>
      in case wf_loop model [0..<shape0 (test st0)] st0 of
           (Some e, st) \<Rightarrow> (Inl e, st)
         | (None, st) \<Rightarrow>
             (case DataFrame_predictions (predictions st) (test st) of
                Inl e \<Rightarrow> (Inl e, st)
              | Inr P \<Rightarrow> (calculate_errors P (test st) model_name, st)))"

section \<open>Properties\<close>

text \<open>
  C7. For a history with at least \<open>N\<close> rows (\<open>N \<ge> 1\<close>), the previous-day strategy
  with \<open>days = N\<close> returns the row \<open>N\<close> positions back from the end of history
  unchanged; with the default \<open>days = 1\<close> this is the last row of history.
\<close>

theorem day_hbh_persistence_row:
  assumes "1 \<le> N" and "N \<le> length (rows hist)"
  shows "day_hbh_persistence (int N) hist
           = Inr (Series (rows hist ! (length (rows hist) - N)))
         \<and> (N = 1 \<longrightarrow> day_hbh_persistence 1 hist = Inr (Series (last (rows hist))))"
proof -
  let ?n = "length (rows hist)"
  have nz: "rows hist \<noteq> []" using assms by auto
  have j: "nat (int ?n - int N) = ?n - N" using assms by simp
  have "iloc_row hist (- int N) = Inr (rows hist ! (?n - N))"
    using assms by (simp add: iloc_row_def py_index_def Let_def j)
  then have first: "day_hbh_persistence (int N) hist = Inr (Series (rows hist ! (?n - N)))"
    by (simp add: day_hbh_persistence_def)
  moreover have "N = 1 \<longrightarrow> day_hbh_persistence 1 hist = Inr (Series (last (rows hist)))"
    using first nz by (auto simp: last_conv_nth)
  ultimately show ?thesis by blast
qed

theorem day_hbh_persistence_row_witness:
  "day_hbh_persistence 1
     \<lparr>ncols = 2, rows = [(0, [Some 1, Some 2]), (1, [Some 10, Some 20])]\<rparr>
   = Inr (Series (1, [Some 10, Some 20]))"
  using day_hbh_persistence_row [of 1 "\<lparr>ncols = 2, rows = [(0, [Some 1, Some 2]), (1, [Some 10, Some 20])]\<rparr>"]
  by simp

lemma filter_distinct_key:
  "distinct (map fst xs) \<Longrightarrow> r \<in> set xs \<Longrightarrow> filter (\<lambda>x. fst x = fst r) xs = [r]"
proof (induction xs)
  case Nil
  then show ?case by simp
next
  case (Cons x xs)
  show ?case
  proof (cases "x = r")
    case True
    have "fst r \<notin> fst ` set xs" using Cons.prems True by simp
    then have "\<forall>y \<in> set xs. fst y \<noteq> fst r" by (metis imageI)
    then have "filter (\<lambda>x. fst x = fst r) xs = []" by (simp add: filter_empty_conv)
    with True show ?thesis by simp
  next
    case False
    then have rin: "r \<in> set xs" using Cons.prems by simp
    have "fst x \<notin> fst ` set xs" using Cons.prems by simp
    then have "fst x \<noteq> fst r" using rin by (metis imageI)
    then show ?thesis using Cons.IH Cons.prems rin by simp
  qed
qed

lemma filter_absent_key:
  "d \<notin> set (map fst xs) \<Longrightarrow> filter (\<lambda>x. fst x = d) xs = []"
  by (induction xs) auto

text \<open>
  C5. For a non-empty history with one row per day whose last date is \<open>d\<close>: when a
  row is dated \<open>d - 365\<close>, the same-day-last-year strategy returns exactly that row;
  when no row has that date it fails with a KeyError for that date.
\<close>

theorem same_day_oya_persistence_lookup:
  assumes "rows hist \<noteq> []" and "distinct (index hist)"
  shows "(\<forall>r \<in> set (rows hist). fst r = last (index hist) - 365
            \<longrightarrow> same_day_oya_persistence hist = Inr (Series r))
       \<and> (last (index hist) - 365 \<notin> set (index hist)
            \<longrightarrow> same_day_oya_persistence hist = Inl (KeyError (last (index hist) - 365)))"
proof -
  let ?d = "last (index hist)"
  have ne: "index hist \<noteq> []" using assms(1) by (simp add: index_def)
  have lastd: "py_index (index hist) (- 1) = Inr ?d"
    using ne by (cases "index hist" rule: rev_cases) (auto simp: py_index_def Let_def)
  have run: "same_day_oya_persistence hist = loc hist (?d - 365)"
    by (simp add: same_day_oya_persistence_def lastd)
  have hit: "same_day_oya_persistence hist = Inr (Series r)"
    if "r \<in> set (rows hist)" and "fst r = ?d - 365" for r
  proof -
    have "filter (\<lambda>x. fst x = ?d - 365) (rows hist) = [r]"
      using filter_distinct_key [of "rows hist" r] assms(2) that by (simp add: index_def)
    then show ?thesis by (simp add: run loc_def)
  qed
  have miss: "same_day_oya_persistence hist = Inl (KeyError (?d - 365))"
    if "?d - 365 \<notin> set (index hist)"
  proof -
    have "filter (\<lambda>x. fst x = ?d - 365) (rows hist) = []"
      using filter_absent_key [of "?d - 365" "rows hist"] that by (simp add: index_def)
    then show ?thesis by (simp add: run loc_def)
  qed
  from hit miss show ?thesis by blast
qed

theorem same_day_oya_persistence_lookup_witness:
  "same_day_oya_persistence \<lparr>ncols = 1, rows = [(0, [Some 5]), (1, [Some 6]), (365, [Some 7])]\<rparr>
     = Inr (Series (0, [Some 5]))
   \<and> same_day_oya_persistence \<lparr>ncols = 1, rows = [(1, [Some 6]), (365, [Some 7])]\<rparr>
     = Inl (KeyError 0)"
  using same_day_oya_persistence_lookup [of "\<lparr>ncols = 1, rows = [(0, [Some 5]), (1, [Some 6]), (365, [Some 7])]\<rparr>"]
        same_day_oya_persistence_lookup [of "\<lparr>ncols = 1, rows = [(1, [Some 6]), (365, [Some 7])]\<rparr>"]
  by (simp add: index_def)

lemma take_searchsorted_filter:
  "sorted (map fst xs) \<Longrightarrow>
   take (length (takeWhile (\<lambda>x. x \<le> d) (map fst xs))) xs = filter (\<lambda>r. fst r \<le> d) xs"
proof (induction xs)
  case Nil
  then show ?case by simp
next
  case (Cons x xs)
  show ?case
  proof (cases "fst x \<le> d")
    case True
    then show ?thesis using Cons by simp
  next
    case False
    have "\<forall>y \<in> set xs. fst x \<le> fst y" using Cons.prems by simp
    then have "\<forall>y \<in> set xs. \<not> fst y \<le> d" using False by force
    then have "filter (\<lambda>r. fst r \<le> d) xs = []" by (simp add: filter_empty_conv)
    then show ?thesis using False by simp
  qed
qed

lemma drop_searchsorted_filter:
  "sorted (map fst xs) \<Longrightarrow>
   drop (length (takeWhile (\<lambda>x. x < d) (map fst xs))) xs = filter (\<lambda>r. d \<le> fst r) xs"
proof (induction xs)
  case Nil
  then show ?case by simp
next
  case (Cons x xs)
  show ?case
  proof (cases "fst x < d")
    case True
    then show ?thesis using Cons by simp
  next
    case False
    have "\<forall>y \<in> set xs. fst x \<le> fst y" using Cons.prems by simp
    then have "\<forall>y \<in> set xs. d \<le> fst y" using False by force
    then have "filter (\<lambda>r. d \<le> fst r) xs = xs" by (simp add: filter_id_conv)
    then show ?thesis using False by simp
  qed
qed

lemma searchsorted_split:
  "length (takeWhile (\<lambda>x. x < d + 1) ix) = length (takeWhile (\<lambda>x. x \<le> (d::int)) ix)"
proof -
  have "(\<lambda>x. x < d + 1) = (\<lambda>x. x \<le> d)" by auto
  then show ?thesis by simp
qed

text \<open>
  C4. For a table whose index is in chronological order and a split date that parses to
  the day \<open>d\<close>, \<open>train_test_split\<close> returns a pair (train, test): train holds
  exactly the rows dated \<open>d\<close> or earlier, test exactly the rows dated later, train
  followed by test is the table itself (same rows, same values, same order), no row is in
  both, and both keep the columns of the table.
\<close>

theorem train_test_split_partition:
  assumes "sorted (index data)" and "strptime split_date = Some d"
  shows "\<exists>trn tst. train_test_split strptime data split_date = Inr (trn, tst)
           \<and> rows trn = filter (\<lambda>r. fst r \<le> d) (rows data)
           \<and> rows tst = filter (\<lambda>r. d < fst r) (rows data)
           \<and> rows trn @ rows tst = rows data
           \<and> set (rows trn) \<inter> set (rows tst) = {}
           \<and> ncols trn = ncols data \<and> ncols tst = ncols data"
proof -
  let ?trn = "slice_upto data d" and ?tst = "slice_from data (d + 1)"
  have srt: "sorted (map fst (rows data))" using assms(1) by (simp add: index_def)
  have run: "train_test_split strptime data split_date = Inr (?trn, ?tst)"
    using assms(2) by (simp add: train_test_split_def)
  have tr: "rows ?trn = filter (\<lambda>r. fst r \<le> d) (rows data)"
    using take_searchsorted_filter [OF srt, of d]
    by (simp add: slice_upto_def searchsorted_right_def index_def)
  have "(\<lambda>r::series. d + 1 \<le> fst r) = (\<lambda>r. d < fst r)" by auto
  then have te: "rows ?tst = filter (\<lambda>r. d < fst r) (rows data)"
    using drop_searchsorted_filter [OF srt, of "d + 1"]
    by (simp add: slice_from_def searchsorted_left_def index_def)
  have cat: "rows ?trn @ rows ?tst = rows data"
    by (simp add: slice_upto_def slice_from_def searchsorted_right_def searchsorted_left_def
        searchsorted_split)
  have dis: "set (rows ?trn) \<inter> set (rows ?tst) = {}"
    unfolding tr te by auto
  have nc: "ncols ?trn = ncols data \<and> ncols ?tst = ncols data"
    by (simp add: slice_upto_def slice_from_def)
  from run tr te cat dis nc show ?thesis by blast
qed

theorem train_test_split_partition_witness:
  "\<exists>trn tst. train_test_split (\<lambda>s. if s = ''2017-12-31'' then Some 2 else None)
       \<lparr>ncols = 1, rows = [(1, [Some 5]), (2, [Some 6]), (3, [Some 7])]\<rparr> ''2017-12-31'' = Inr (trn, tst)
     \<and> rows trn = [(1, [Some 5]), (2, [Some 6])] \<and> rows tst = [(3, [Some 7])]"
  using train_test_split_partition [of "\<lparr>ncols = 1, rows = [(1, [Some 5]), (2, [Some 6]), (3, [Some 7])]\<rparr>"
      "\<lambda>s. if s = ''2017-12-31'' then Some 2 else None" "''2017-12-31''" 2]
  by (simp add: index_def) blast

lemma error_loop_entries:
  "\<forall>i \<in> set js. hour_rmse P T i = Inr (f i) \<Longrightarrow>
   error_loop P T js acc = Inr (acc @ map (\<lambda>i. [f i]) js)"
  by (induction js arbitrary: acc) auto

lemma calculate_errors_entries:
  assumes "shape1 P = 24" and "\<forall>i < 24. hour_rmse P T i = Inr (f i)"
  shows "calculate_errors P T result_set
         = Inr (\<lparr>et_columns = [result_set], et_index = map str [0..<24],
                 et_values = map (\<lambda>i. [f i]) [0..<24]\<rparr>,
                [[Some (f 0)]])"
proof -
  let ?el = "map (\<lambda>i. [f i]) [0..<24]"
  have "\<forall>i \<in> set [0..<24]. hour_rmse P T i = Inr (f i)" using assms(2) by simp
  then have loop: "error_loop P T [0..<24] [] = Inr ?el"
    using error_loop_entries [of "[0..<24]" P T f "[]"] by simp
  have "[0..<24] = 0 # [1..<24]" by (simp add: upt_rec)
  then have "?el = [f 0] # map (\<lambda>i. [f i]) [1..<24]" by simp
  then have first: "py_index ?el 0 = Inr [f 0]" by (simp add: py_index_def)
  have mean: "np_mean [f 0] = Some (f 0)" by (simp add: np_mean_def)
  have tab: "DataFrame_errors ?el (map str [0..<24]) [result_set]
             = Inr \<lparr>et_columns = [result_set], et_index = map str [0..<24], et_values = ?el\<rparr>"
    by (simp add: DataFrame_errors_def list_all_iff)
  show ?thesis
    unfolding calculate_errors_def Let_def assms(1) loop
    by (simp add: first mean tab)
qed

lemma squared_error_self:
  "sum_list (map (\<lambda>(x, y). (the x - the y)\<^sup>2) (zip a a)) = (0::real)"
  by (induction a) auto

lemma mean_squared_error_self:
  "a \<noteq> [] \<Longrightarrow> None \<notin> set a \<Longrightarrow> mean_squared_error a a = Inr 0"
  by (simp add: mean_squared_error_def squared_error_self)

text \<open>
  C6. For a table with 24 hour columns, at least one row and numeric cells, compared with
  itself (predictions equal to truth), the error aggregator returns an error table whose
  24 entries are all 0 and the mean error 0.
\<close>

theorem calculate_errors_exact:
  assumes "ncols T = 24" and "rows T \<noteq> []"
    and "\<forall>r \<in> set (rows T). length (snd r) = 24 \<and> None \<notin> set (snd r)"
  shows "calculate_errors T T result_set
         = Inr (\<lparr>et_columns = [result_set], et_index = map str [0..<24],
                 et_values = replicate 24 [0]\<rparr>,
                [[Some 0]])"
proof -
  have rmse: "hour_rmse T T i = Inr 0" if "i < 24" for i
  proof -
    let ?col = "map (\<lambda>r. snd r ! i) (rows T)"
    have col: "iloc_col T i = Inr ?col" using that assms(1) by (simp add: iloc_col_def)
    have ne: "?col \<noteq> []" using assms(2) by simp
    have num: "None \<notin> set ?col"
    proof
      assume "None \<in> set ?col"
      then obtain r where "r \<in> set (rows T)" and "snd r ! i = None" by auto
      with assms(3) that show False by (metis nth_mem)
    qed
    show ?thesis
      by (simp add: hour_rmse_def col mean_squared_error_self [OF ne num])
  qed
  have "calculate_errors T T result_set
         = Inr (\<lparr>et_columns = [result_set], et_index = map str [0..<24],
                 et_values = map (\<lambda>i. [(\<lambda>i. 0) i]) [0..<24]\<rparr>,
                [[Some ((\<lambda>i. 0) (0::nat))]])"
    using rmse by (intro calculate_errors_entries) (simp_all add: shape1_def assms(1))
  moreover have "map (\<lambda>i. [0::real]) [0..<24] = replicate 24 [0]"
    by (simp add: map_replicate_const)
  ultimately show ?thesis by simp
qed


theorem calculate_errors_exact_witness:
  "calculate_errors \<lparr>ncols = 24, rows = [(0, replicate 24 (Some 5)), (1, replicate 24 (Some 7))]\<rparr>
       \<lparr>ncols = 24, rows = [(0, replicate 24 (Some 5)), (1, replicate 24 (Some 7))]\<rparr> ''prev_day_persistence''
   = Inr (\<lparr>et_columns = [''prev_day_persistence''], et_index = map str [0..<24],
           et_values = replicate 24 [0]\<rparr>, [[Some 0]])"
  using calculate_errors_exact [of "\<lparr>ncols = 24, rows = [(0, replicate 24 (Some 5)), (1, replicate 24 (Some 7))]\<rparr>"
      "''prev_day_persistence''"]
  by simp

text \<open>
  C6, as stated for every pair of same-shaped tables, fails for tables without rows: the
  mean squared error of an empty column is refused, and the aggregator ends with a
  ValueError instead of a table of zeros.
\<close>

theorem calculate_errors_empty_counterexample:
  "calculate_errors \<lparr>ncols = 24, rows = []\<rparr> \<lparr>ncols = 24, rows = []\<rparr> ''prev_day_persistence''
   = Inl ValueError"
proof -
  have "[0..<24] = 0 # [1..<24]" by (simp add: upt_rec)
  then show ?thesis
    by (simp add: calculate_errors_def shape1_def hour_rmse_def iloc_col_def
        mean_squared_error_def)
qed

text \<open>
  C2. The error mean that the aggregator returns is \<open>np.mean(error_list[0])\<close>, the
  error of hour 0 alone, not the mean of the 24 per-hour errors. For one day forecast
  exactly at hour 0 and off by 1 at every other hour the per-hour errors are
  0, 1, ..., 1 with mean 23/24, and the returned error mean is 0.
\<close>

theorem calculate_errors_mean_first_hour:
  "calculate_errors \<lparr>ncols = 24, rows = [(0, Some 0 # replicate 23 (Some 1))]\<rparr>
       \<lparr>ncols = 24, rows = [(0, replicate 24 (Some 0))]\<rparr> ''prev_day_persistence''
   = Inr (\<lparr>et_columns = [''prev_day_persistence''], et_index = map str [0..<24],
           et_values = [0] # replicate 23 [1]\<rparr>, [[Some 0]])
   \<and> np_mean (concat ([0] # replicate 23 [1])) = Some (23 / 24)"
proof -
  let ?P = "\<lparr>ncols = 24, rows = [(0, Some 0 # replicate 23 (Some 1))]\<rparr>"
  let ?T = "\<lparr>ncols = 24, rows = [(0::int, replicate 24 (Some (0::real)))]\<rparr>"
  let ?f = "\<lambda>i::nat. if i = 0 then 0 else (1::real)"
  have rmse: "hour_rmse ?P ?T i = Inr (?f i)" if "i < 24" for i
    using that
    by (cases i) (simp_all add: hour_rmse_def iloc_col_def mean_squared_error_def)
  have run: "calculate_errors ?P ?T ''prev_day_persistence''
         = Inr (\<lparr>et_columns = [''prev_day_persistence''], et_index = map str [0..<24],
                 et_values = map (\<lambda>i. [?f i]) [0..<24]\<rparr>, [[Some (?f 0)]])"
    using rmse by (intro calculate_errors_entries) (simp_all add: shape1_def)
  have split: "[0..<24] = 0 # [1..<24]" by (simp add: upt_rec)
  have "map (\<lambda>i. [?f i]) [1..<24] = map (\<lambda>i. [1]) [1..<24]"
    by (rule map_cong) auto
  also have "\<dots> = replicate 23 [1]" by (simp add: map_replicate_const)
  finally have vals: "map (\<lambda>i. [?f i]) [0..<24] = [0] # replicate 23 [1]"
    unfolding split by simp
  have "concat (replicate 23 [1::real]) = replicate 23 1"
    by (simp add: eval_nat_numeral)
  then have "np_mean (concat ([0] # replicate 23 [1])) = Some (23 / 24)"
    by (simp add: np_mean_def sum_list_replicate)
  with run vals show ?thesis by simp
qed

lemma wf_step_keeps:
  "train (snd (wf_step model i st)) = train st
   \<and> test (snd (wf_step model i st)) = test st"
  by (simp add: wf_step_def Let_def split: prod.splits sum.splits)

lemma wf_loop_keeps:
  "train (snd (wf_loop model js st)) = train st
   \<and> test (snd (wf_loop model js st)) = test st"
proof (induction js arbitrary: st)
  case Nil
  then show ?case by simp
next
  case (Cons i js)
  obtain r st' where step: "wf_step model i st = (r, st')" by (cases "wf_step model i st")
  have keep: "train st' = train st \<and> test st' = test st"
    using wf_step_keeps [of model i st] step by simp
  show ?case
  proof (cases r)
    case None
    then show ?thesis using step keep Cons.IH [of st'] by simp
  next
    case (Some e)
    then show ?thesis using step keep by simp
  qed
qed

lemma wf_loop_append:
  "wf_loop model (js @ ks) st =
     (case wf_loop model js st of
        (Some e, st') \<Rightarrow> (Some e, st')
      | (None, st') \<Rightarrow> wf_loop model ks st')"
  by (induction js arbitrary: st) (auto split: prod.splits option.splits)

text \<open>
  C9. \<open>walk_forward_evaluation\<close> leaves its arguments as they were: whatever the
  model does with its own state and with the table it is handed, and whether the call
  returns or raises, the tables \<open>train\<close> and \<open>test\<close> of the final state are the
  ones passed in.
\<close>

theorem walk_forward_evaluation_frame:
  "train (snd (walk_forward_evaluation model s0 trn tst model_name)) = trn
   \<and> test (snd (walk_forward_evaluation model s0 trn tst model_name)) = tst"
proof -
  let ?st0 = "\<lparr>train = trn, test = tst, history = trn, predictions = [], model_state = s0\<rparr>"
  obtain r st where loop: "wf_loop model [0..<shape0 tst] ?st0 = (r, st)"
    by (cases "wf_loop model [0..<shape0 tst] ?st0")
  have "train st = trn \<and> test st = tst"
    using wf_loop_keeps [of model "[0..<shape0 tst]" ?st0] loop by simp
  moreover have "snd (walk_forward_evaluation model s0 trn tst model_name) = st"
    using loop by (simp add: walk_forward_evaluation_def split: option.splits sum.splits)
  ultimately show ?thesis by simp
qed

text \<open>
  C3, as the code has it. When the steps before position \<open>k\<close> have run and the call
  of the model at step \<open>k\<close> fails with \<open>e\<close>, the evaluation stops there: it ends
  with exactly the failure \<open>e\<close> of the model, in the state that this call left, so
  that no later step runs and no day is skipped. Nothing is attached to \<open>e\<close>.
\<close>

theorem walk_forward_failure_propagates:
  assumes "k < shape0 tst"
    and "wf_loop model [0..<k]
           \<lparr>train = trn, test = tst, history = trn, predictions = [], model_state = s0\<rparr>
         = (None, st)"
    and "model (model_state st) (history st) = (Inl e, s', h')"
  shows "walk_forward_evaluation model s0 trn tst model_name
         = (Inl e, st\<lparr>history := h', model_state := s'\<rparr>)"
proof -
  let ?st0 = "\<lparr>train = trn, test = tst, history = trn, predictions = [], model_state = s0\<rparr>"
  have "[0..<k + (shape0 tst - k)] = [0..<k] @ [k..<k + (shape0 tst - k)]"
    by (rule upt_add_eq_append) simp
  moreover have "[k..<shape0 tst] = k # [Suc k..<shape0 tst]"
    using assms(1) by (simp add: upt_conv_Cons)
  ultimately have "[0..<shape0 tst] = [0..<k] @ (k # [Suc k..<shape0 tst])"
    using assms(1) by simp
  moreover have "wf_step model k st = (Some e, st\<lparr>history := h', model_state := s'\<rparr>)"
    using assms(3) by (simp add: wf_step_def)
  ultimately have "wf_loop model [0..<shape0 tst] ?st0
                   = (Some e, st\<lparr>history := h', model_state := s'\<rparr>)"
    using assms(2) by (simp add: wf_loop_append)
  then show ?thesis by (simp add: walk_forward_evaluation_def)
qed

text \<open>
  An instance at step 1: a callable that counts its calls, answers the first with the
  previous day and fails from the second on.
\<close>

theorem walk_forward_failure_propagates_witness:
  "walk_forward_evaluation
     (\<lambda>calls h. (if calls = 0 then day_hbh_persistence 1 h else Inl (KeyError 7), Suc calls, h))
     0 \<lparr>ncols = 1, rows = [(0, [Some 1])]\<rparr>
     \<lparr>ncols = 1, rows = [(1, [Some 2]), (2, [Some 3]), (3, [Some 4])]\<rparr> ''model_a''
   = (Inl (KeyError 7),
      \<lparr>train = \<lparr>ncols = 1, rows = [(0, [Some 1])]\<rparr>,
       test = \<lparr>ncols = 1, rows = [(1, [Some 2]), (2, [Some 3]), (3, [Some 4])]\<rparr>,
       history = \<lparr>ncols = 1, rows = [(0, [Some 1])]\<rparr>,
       predictions = [Series (0, [Some 1])], model_state = 2\<rparr>)"
proof -
  have one: "[0..<1] = [0::nat]" by (simp add: upt_rec)
  show ?thesis
    using walk_forward_failure_propagates [of 1
      "\<lparr>ncols = 1, rows = [(1, [Some 2]), (2, [Some 3]), (3, [Some 4])]\<rparr>"
      "\<lambda>calls h. (if calls = 0 then day_hbh_persistence 1 h else Inl (KeyError 7), Suc calls, h)"
      "\<lparr>ncols = 1, rows = [(0, [Some 1])]\<rparr>" 0
      "\<lparr>train = \<lparr>ncols = 1, rows = [(0, [Some 1])]\<rparr>,
        test = \<lparr>ncols = 1, rows = [(1, [Some 2]), (2, [Some 3]), (3, [Some 4])]\<rparr>,
        history = \<lparr>ncols = 1, rows = [(0, [Some 1])]\<rparr>,
        predictions = [Series (0, [Some 1])], model_state = Suc 0\<rparr>"
      "KeyError 7" 2 "\<lparr>ncols = 1, rows = [(0, [Some 1])]\<rparr>" "''model_a''"]
    by (simp add: one shape0_def wf_step_def day_hbh_persistence_def iloc_row_def py_index_def)
qed

text \<open>
  C3, as stated, fails: the failure that leaves the evaluator carries neither the
  step index nor the model name. Two runs that differ only in the model name end with
  the same failure, the KeyError of the strategy's date lookup.
\<close>

theorem walk_forward_failure_context_counterexample:
  "fst (walk_forward_evaluation (pure_strategy same_day_oya_persistence) ()
     \<lparr>ncols = 1, rows = [(0, [Some 1])]\<rparr> \<lparr>ncols = 1, rows = [(1, [Some 2])]\<rparr> ''model_a'')
   = Inl (KeyError (- 365))
   \<and> fst (walk_forward_evaluation (pure_strategy same_day_oya_persistence) ()
     \<lparr>ncols = 1, rows = [(0, [Some 1])]\<rparr> \<lparr>ncols = 1, rows = [(1, [Some 2])]\<rparr> ''model_b'')
   = Inl (KeyError (- 365))"
  by (simp add: walk_forward_evaluation_def shape0_def wf_step_def pure_strategy_def
      same_day_oya_persistence_def py_index_def index_def loc_def)

text \<open>
  C1. The loop never stores the table that \<open>history.append\<close> returns, so under a
  strategy that only reads it the history stays the training table. For a training
  table with the day 0 and a test table with the days 1 and 2, the history after the first
  step, which the strategy receives at step 1, is still the training table without the
  row of day 1, and the previous-day strategy forecasts the row of day 0 twice.
\<close>

theorem walk_forward_history_fixed:
  "history (snd (wf_loop (pure_strategy (day_hbh_persistence 1)) [0..<1]
      \<lparr>train = \<lparr>ncols = 1, rows = [(0, [Some 1])]\<rparr>,
       test = \<lparr>ncols = 1, rows = [(1, [Some 2]), (2, [Some 3])]\<rparr>,
       history = \<lparr>ncols = 1, rows = [(0, [Some 1])]\<rparr>, predictions = [],
       model_state = ()\<rparr>))
   = \<lparr>ncols = 1, rows = [(0, [Some 1])]\<rparr>
   \<and> predictions (snd (wf_loop (pure_strategy (day_hbh_persistence 1)) [0..<2]
      \<lparr>train = \<lparr>ncols = 1, rows = [(0, [Some 1])]\<rparr>,
       test = \<lparr>ncols = 1, rows = [(1, [Some 2]), (2, [Some 3])]\<rparr>,
       history = \<lparr>ncols = 1, rows = [(0, [Some 1])]\<rparr>, predictions = [],
       model_state = ()\<rparr>))
   = [Series (0, [Some 1]), Series (0, [Some 1])]"
proof -
  have "[0..<1] = [0::nat]" and "[0..<2] = [0::nat, 1]" by (simp_all add: upt_rec)
  then show ?thesis
    by (simp add: wf_step_def pure_strategy_def day_hbh_persistence_def iloc_row_def
        py_index_def)
qed

text \<open>
  C10. The result of \<open>get_persistence_dataset\<close> does not depend on its \<open>path\<close>
  argument: two calls that differ only in \<open>path\<close> return the same, and so does a call
  in which every path leads to the contents of the file named in the function body.
\<close>

theorem get_persistence_dataset_path:
  "get_persistence_dataset E path1 index_col start stop shift
   = get_persistence_dataset E path2 index_col start stop shift
   \<and> get_persistence_dataset E path1 index_col start stop shift
   = get_persistence_dataset
       (E\<lparr>read_csv := \<lambda>p. read_csv E ''./data/cleaned_data/energy_loads_2015_2019.csv''\<rparr>)
       path2 index_col start stop shift"
  by (simp add: get_persistence_dataset_def cong: sum.case_cong)

end
